theory Spec2Isabelle
  imports Main "HOL-Library.FSet"
begin

section \<open>Data model (app/models/notification.py, app/schemas/notification.py)\<close>

datatype NotificationType = EMAIL | PUSH

fun NotificationType_value :: "NotificationType \<Rightarrow> string" where
  "NotificationType_value EMAIL = ''email''"
| "NotificationType_value PUSH = ''push''"

datatype NotificationStatus = PENDING | SENT | FAILED | RETRYING

datatype NotificationPriority = LOW | NORMAL | HIGH | URGENT

text \<open>
  Timestamps are \<open>datetime\<close> values: an integer number of microseconds, the resolution of
  Python's \<open>datetime\<close>. \<open>timedelta(seconds=s)\<close> for an integer \<open>s\<close> is exactly \<open>s\<close> million
  microseconds.
\<close>

type_synonym timestamp = int

definition timedelta_seconds :: "int \<Rightarrow> int" where
  "timedelta_seconds s = 1000000 * s"

text \<open>
  The values of the \<open>data\<close> dictionary of an event (\<open>Dict[str, Any]\<close>): strings, integers,
  booleans and \<open>None\<close>. A Python dictionary keeps insertion order and the renderer iterates
  over it, so it is an association list.
\<close>

datatype json_value = JStr string | JInt int | JBool bool | JNone

type_synonym dict = "(string \<times> json_value) list"

fun dict_set :: "string \<Rightarrow> json_value \<Rightarrow> dict \<Rightarrow> dict" where
  "dict_set k v [] = [(k, v)]"
| "dict_set k v ((k', v') # d) = (if k' = k then (k, v) # d else (k', v') # dict_set k v d)"

record Notification =
  notification_id :: nat
  user_id :: string
  notification_type :: NotificationType
  status :: NotificationStatus
  priority :: NotificationPriority
  recipient_email :: "string option"
  recipient_fcm_token :: "string option"
  subject :: "string option"
  title :: "string option"
  body :: string
  data :: "dict option"
  event_type :: string
  retry_count :: int
  max_retries :: int
  next_retry_at :: "timestamp option"
  error_message :: "string option"
  created_at :: timestamp
  sent_at :: "timestamp option"

record NotificationTemplate =
  tpl_event_type :: string
  tpl_notification_type :: NotificationType
  subject_template :: "string option"
  title_template :: "string option"
  body_template :: string
  tpl_priority :: NotificationPriority
  is_active :: "int option"

text \<open>
  \<open>email_enabled\<close> and \<open>push_enabled\<close> are nullable integer columns (0 = disabled,
  1 = enabled); \<open>event_preferences\<close> is a nullable JSON column of shape
  \<open>{event_type: {channel: bool}}\<close>, a dictionary of dictionaries, looked up with
  \<open>map_of\<close>.
\<close>

record UserNotificationPreference =
  pref_user_id :: string
  fcm_token :: "string option"
  email_enabled :: "int option"
  push_enabled :: "int option"
  event_preferences :: "(string \<times> (string \<times> bool) list) list option"

record NotificationEvent =
  ev_user_id :: string
  ev_user_email :: "string option"
  ev_fcm_token :: "string option"
  ev_event_type :: string
  ev_data :: dict
  ev_priority :: NotificationPriority

subsection \<open>Python truthiness\<close>

fun truthy_int :: "int option \<Rightarrow> bool" where
  "truthy_int None = False"
| "truthy_int (Some i) = (i \<noteq> 0)"

fun truthy_str :: "string option \<Rightarrow> bool" where
  "truthy_str None = False"
| "truthy_str (Some s) = (s \<noteq> [])"

fun truthy_dict :: "dict option \<Rightarrow> bool" where
  "truthy_dict None = False"
| "truthy_dict (Some d) = (d \<noteq> [])"

section \<open>Preference resolver (NotificationService._should_send_notification)\<close>

definition should_send_notification ::
  "UserNotificationPreference option \<Rightarrow> NotificationTemplate \<Rightarrow> string \<Rightarrow> bool" where
  "should_send_notification preferences template evt =
     (case preferences of
        None \<Rightarrow> True
      | Some p \<Rightarrow>
          if tpl_notification_type template = EMAIL \<and> \<not> truthy_int (email_enabled p) then False
          else if tpl_notification_type template = PUSH \<and> \<not> truthy_int (push_enabled p) then False
          else (case event_preferences p of
                  None \<Rightarrow> True
                | Some prefs \<Rightarrow>
                    (case map_of prefs evt of
                       None \<Rightarrow> True
                     | Some event_pref \<Rightarrow>
                         (case map_of event_pref
                                 (NotificationType_value (tpl_notification_type template)) of
                            None \<Rightarrow> True
                          | Some b \<Rightarrow> b))))"

text \<open>The global flag that \<open>_should_send_notification\<close> consults for a channel.\<close>

fun global_flag :: "UserNotificationPreference \<Rightarrow> NotificationType \<Rightarrow> int option" where
  "global_flag p EMAIL = email_enabled p"
| "global_flag p PUSH = push_enabled p"

text \<open>The per-event override of a preference record for an event type and a channel.\<close>

definition event_override ::
  "UserNotificationPreference \<Rightarrow> string \<Rightarrow> NotificationType \<Rightarrow> bool option" where
  "event_override p evt ch =
     (case event_preferences p of
        None \<Rightarrow> None
      | Some prefs \<Rightarrow>
          (case map_of prefs evt of
             None \<Rightarrow> None
           | Some event_pref \<Rightarrow> map_of event_pref (NotificationType_value ch)))"

section \<open>Retry state machine (NotificationService._handle_failed_notification)\<close>

text \<open>
  \<open>retry_delay\<close> is \<open>settings.RETRY_DELAY_SECONDS\<close>, \<open>now\<close> the reading of
  \<open>datetime.utcnow()\<close>. The message is recorded only when it is truthy
  (\<open>if error_message:\<close>).
\<close>

definition handle_failed_notification ::
  "int \<Rightarrow> timestamp \<Rightarrow> Notification \<Rightarrow> string option \<Rightarrow> Notification" where
  "handle_failed_notification retry_delay now notification msg =
     (let n1 = notification\<lparr>retry_count := retry_count notification + 1\<rparr>;
          n2 = (if retry_count n1 < max_retries n1
                then n1\<lparr>status := RETRYING,
                        next_retry_at :=
                          Some (now + timedelta_seconds (retry_delay * retry_count n1))\<rparr>
                else n1\<lparr>status := FAILED\<rparr>)
      in if truthy_str msg then n2\<lparr>error_message := msg\<rparr> else n2)"

section \<open>Realtime connection registry (app/websockets/connection_manager.py)\<close>

text \<open>
  \<open>active_connections\<close> is a dictionary from user id to the set of that user's open
  WebSocket connections; a connection is identified by a number. A call of a collaborator
  either returns a value or raises an exception, of which the model keeps \<open>str(e)\<close>.
\<close>

type_synonym registry = "string \<rightharpoonup> nat fset"

datatype 'a outcome = Returns 'a | Raises string

text \<open>
  \<open>connect\<close> first awaits \<open>websocket.accept()\<close>; when that raises, nothing has been
  stored yet and the exception leaves the method.
\<close>

definition manager_connect ::
  "unit outcome \<Rightarrow> nat \<Rightarrow> string \<Rightarrow> registry \<Rightarrow> string + registry" where
  "manager_connect accepted websocket uid conns =
     (case accepted of
        Raises e \<Rightarrow> Inl e
      | Returns _ \<Rightarrow>
          (let conns1 = (if conns uid = None then conns(uid \<mapsto> {||}) else conns)
           in Inr (conns1(uid \<mapsto> finsert websocket (case conns1 uid of None \<Rightarrow> {||} | Some s \<Rightarrow> s)))))"

definition manager_disconnect :: "nat \<Rightarrow> string \<Rightarrow> registry \<Rightarrow> registry" where
  "manager_disconnect websocket uid conns =
     (case conns uid of
        None \<Rightarrow> conns
      | Some s \<Rightarrow>
          (let s1 = s |-| {|websocket|}
           in if s1 = {||} then conns(uid := None) else conns(uid \<mapsto> s1)))"

definition manager_is_user_connected :: "registry \<Rightarrow> string \<Rightarrow> bool" where
  "manager_is_user_connected conns uid =
     (case conns uid of None \<Rightarrow> False | Some s \<Rightarrow> fcard s > 0)"

text \<open>
  \<open>send_notification\<close> of the manager: \<open>accepts ws\<close> says whether
  \<open>websocket.send_json\<close> on connection \<open>ws\<close> returns (otherwise it raises and the
  connection is collected in \<open>disconnected\<close>). The result is the returned boolean and the
  registry afterwards.
\<close>

definition manager_send_notification ::
  "(nat \<Rightarrow> bool) \<Rightarrow> string \<Rightarrow> registry \<Rightarrow> bool \<times> registry" where
  "manager_send_notification accepts uid conns =
     (case conns uid of
        None \<Rightarrow> (False, conns)
      | Some s \<Rightarrow>
          (let disconnected = ffilter (\<lambda>ws. \<not> accepts ws) s;
               sent_count = fcard (ffilter accepts s);
               s1 = s |-| disconnected
           in (sent_count > 0, if s1 = {||} then conns(uid := None) else conns(uid \<mapsto> s1))))"

text \<open>
  \<open>broadcast\<close> visits every entry, discards from its set the connections whose
  \<open>send_json\<close> raised, marks the user when the set became empty, and deletes the marked
  users afterwards. The entries do not influence each other, so the registry afterwards is
  given entry by entry.
\<close>

definition manager_broadcast :: "(nat \<Rightarrow> bool) \<Rightarrow> registry \<Rightarrow> registry" where
  "manager_broadcast accepts conns =
     (\<lambda>uid. case conns uid of
               None \<Rightarrow> None
             | Some s \<Rightarrow>
                 (let disconnected = ffilter (\<lambda>ws. \<not> accepts ws) s;
                      s1 = s |-| disconnected
                  in if s1 = {||} then None else Some s1))"

text \<open>The invariant of the registry: no user is registered with an empty set.\<close>

definition registry_inv :: "registry \<Rightarrow> bool" where
  "registry_inv conns = (\<forall>uid. conns uid \<noteq> Some {||})"

section \<open>Template renderer (NotificationService._replace_placeholders, _render_template)\<close>

text \<open>
  \<open>str.replace(old, new)\<close>: the leftmost non-overlapping occurrences of \<open>old\<close> are replaced;
  for the empty \<open>old\<close> Python puts \<open>new\<close> before every character and at the end.
\<close>

function py_replace :: "string \<Rightarrow> string \<Rightarrow> string \<Rightarrow> string" where
  "py_replace old new [] = (if old = [] then new else [])"
| "py_replace old new (c # cs) =
     (if old = [] then new @ c # py_replace old new cs
      else if take (length old) (c # cs) = old
           then new @ py_replace old new (drop (length old) (c # cs))
           else c # py_replace old new cs)"
  by pat_completeness auto
termination
  by (relation "measure (\<lambda>(old, new, s). length s)") (auto simp: neq_Nil_conv)

text \<open>\<open>str(value)\<close> for the values of the data dictionary.\<close>

definition digit_char :: "nat \<Rightarrow> char" where
  "digit_char d = ''0123456789'' ! d"

fun str_nat :: "nat \<Rightarrow> string" where
  "str_nat n = (if n < 10 then [digit_char n] else str_nat (n div 10) @ [digit_char (n mod 10)])"

declare str_nat.simps [simp del]

definition str_int :: "int \<Rightarrow> string" where
  "str_int i = (if i < 0 then CHR ''-'' # str_nat (nat (- i)) else str_nat (nat i))"

fun str_value :: "json_value \<Rightarrow> string" where
  "str_value (JStr s) = s"
| "str_value (JInt i) = str_int i"
| "str_value (JBool b) = (if b then ''True'' else ''False'')"
| "str_value JNone = ''None''"

definition placeholder :: "string \<Rightarrow> string" where
  "placeholder key = CHR ''{'' # key @ [CHR ''}'']"

definition replace_placeholders :: "string \<Rightarrow> dict \<Rightarrow> string" where
  "replace_placeholders template d =
     foldl (\<lambda>result (key, v). py_replace (placeholder key) (str_value v) result) template d"

text \<open>The dictionary \<open>rendered\<close>: the keys \<open>subject\<close> and \<open>title\<close> may be missing.\<close>

record rendered =
  rendered_subject :: "string option"
  rendered_title :: "string option"
  rendered_body :: string

definition render_template :: "NotificationTemplate \<Rightarrow> dict \<Rightarrow> rendered" where
  "render_template template d =
     \<lparr>rendered_subject =
        (if truthy_str (subject_template template)
         then map_option (\<lambda>t. replace_placeholders t d) (subject_template template) else None),
      rendered_title =
        (if truthy_str (title_template template)
         then map_option (\<lambda>t. replace_placeholders t d) (title_template template) else None),
      rendered_body = replace_placeholders (body_template template) d\<rparr>"

subsection \<open>What the specification says a rendering is\<close>

text \<open>
  A template read as the specification reads it: literal text and \<open>{key}\<close> placeholders.
  \<open>render_spec\<close> follows the specification's words: a placeholder whose key is in the data
  is replaced with the string form of its value, any other placeholder stays as it is.
\<close>

datatype segment = Lit string | Hole string

fun segment_text :: "segment \<Rightarrow> string" where
  "segment_text (Lit s) = s"
| "segment_text (Hole k) = placeholder k"

definition template_text :: "segment list \<Rightarrow> string" where
  "template_text segs = concat (map segment_text segs)"

fun fill :: "dict \<Rightarrow> segment \<Rightarrow> string" where
  "fill d (Lit s) = s"
| "fill d (Hole k) = (case map_of d k of Some v \<Rightarrow> str_value v | None \<Rightarrow> placeholder k)"

definition render_spec :: "segment list \<Rightarrow> dict \<Rightarrow> string" where
  "render_spec segs d = concat (map (fill d) segs)"

definition brace_free :: "string \<Rightarrow> bool" where
  "brace_free s = (CHR ''{'' \<notin> set s \<and> CHR ''}'' \<notin> set s)"

definition open_free :: "string \<Rightarrow> bool" where
  "open_free s = (CHR ''{'' \<notin> set s)"

fun plain_segment :: "segment \<Rightarrow> bool" where
  "plain_segment (Lit s) = open_free s"
| "plain_segment (Hole k) = brace_free k"

definition plain_data :: "dict \<Rightarrow> bool" where
  "plain_data d = list_all (\<lambda>(k, v). brace_free k \<and> open_free (str_value v)) d"

section \<open>Delivery orchestrator (NotificationService)\<close>

text \<open>
  The collaborators of the service: what the email sender and the push sender answer for a
  notification (a boolean, or an exception), which WebSocket connections accept a payload,
  the clock, \<open>settings.RETRY_DELAY_SECONDS\<close>, and the faults of the storage session:
  \<open>SessionLocal()\<close> raising, the first query raising, \<open>db.close()\<close> raising. All other
  queries and commits are taken to succeed.
\<close>

record collaborators =
  email_send :: "Notification \<Rightarrow> bool outcome"
  push_send :: "Notification \<Rightarrow> bool outcome"
  ws_accepts :: "nat \<Rightarrow> bool"
  utcnow :: timestamp
  retry_delay :: int
  session_fault :: "string option"
  query_fault :: "string option"
  close_fault :: "string option"

datatype transport_call =
  CallWebsocket string | CallPush "string option" | CallEmail "string option"

record world =
  preferences_table :: "UserNotificationPreference list"
  templates_table :: "NotificationTemplate list"
  notifications_table :: "Notification list"
  active_connections :: registry
  transport_calls :: "transport_call list"

subsection \<open>_send_notification\<close>

text \<open>
  The part of \<open>_send_notification\<close> before "Update notification status": it yields the
  variables \<open>success\<close> and \<open>sent_via_websocket\<close>, or the exception a sender raised, together
  with the registry afterwards and the transports that were called.
\<close>

definition deliver ::
  "collaborators \<Rightarrow> registry \<Rightarrow> Notification \<Rightarrow>
     (bool \<times> bool) outcome \<times> registry \<times> transport_call list" where
  "deliver env conns n =
     (case notification_type n of
        PUSH \<Rightarrow>
          (let (sent_via_websocket, conns1, calls1) =
                 (if manager_is_user_connected conns (user_id n)
                  then (let (r, c) = manager_send_notification (ws_accepts env) (user_id n) conns
                        in (r, c, [CallWebsocket (user_id n)]))
                  else (False, conns, []))
           in if \<not> sent_via_websocket \<and> truthy_str (recipient_fcm_token n)
              then (case push_send env n of
                      Raises e \<Rightarrow> (Raises e, conns1, calls1 @ [CallPush (recipient_fcm_token n)])
                    | Returns b \<Rightarrow>
                        (Returns (b, sent_via_websocket), conns1,
                         calls1 @ [CallPush (recipient_fcm_token n)]))
              else (Returns (sent_via_websocket, sent_via_websocket), conns1, calls1))
      | EMAIL \<Rightarrow>
          (case email_send env n of
             Raises e \<Rightarrow> (Raises e, conns, [CallEmail (recipient_email n)])
           | Returns b \<Rightarrow> (Returns (b, False), conns, [CallEmail (recipient_email n)])))"

text \<open>
  The notification handed to \<open>_send_notification\<close> is attached to the session and clean:
  it is a row of the table, as \<open>db.refresh\<close> or an earlier \<open>db.commit\<close> left it. The
  session's unit of work records the attributes that are assigned. \<open>Notification.data\<close> is a
  plain \<open>Column(JSON)\<close>, so a change made inside the dictionary it holds is not recorded.
  \<open>db.commit()\<close> writes the recorded attributes to the row and expires the object: what is
  read from the object afterwards is the row. \<open>db_commit row data_assigned obj\<close> is the
  notification after the commit, for the row before it, the object in memory and whether an
  assignment to \<open>data\<close> was recorded (all other changes of \<open>_send_notification\<close> are
  assignments).
\<close>

definition db_commit :: "Notification \<Rightarrow> bool \<Rightarrow> Notification \<Rightarrow> Notification" where
  "db_commit row data_assigned obj = (if data_assigned then obj else obj\<lparr>data := data row\<rparr>)"

text \<open>
  The success branch of "Update notification status": the object in memory afterwards, and
  whether \<open>notification.data = {}\<close> was executed. The write of \<open>sent_via\<close> goes into the
  dictionary in place.
\<close>

definition mark_sent :: "timestamp \<Rightarrow> bool \<Rightarrow> Notification \<Rightarrow> Notification \<times> bool" where
  "mark_sent now sent_via_websocket n =
     (let n1 = n\<lparr>status := SENT, sent_at := Some now\<rparr>;
          data_assigned = \<not> truthy_dict (data n1);
          n2 = (if data_assigned then n1\<lparr>data := Some []\<rparr> else n1)
      in (n2\<lparr>data :=
               map_option
                 (dict_set ''sent_via''
                    (JStr (if sent_via_websocket then ''websocket''
                           else NotificationType_value (notification_type n2))))
                 (data n2)\<rparr>,
          data_assigned))"

text \<open>
  \<open>_send_notification\<close>: the notification as it is read after the \<open>db.commit()\<close> that ends
  either path, the registry afterwards and the transports that were called.
\<close>

definition send_notification ::
  "collaborators \<Rightarrow> registry \<Rightarrow> Notification \<Rightarrow> Notification \<times> registry \<times> transport_call list" where
  "send_notification env conns n =
     (let (result, conns1, calls) = deliver env conns n;
          (obj, data_assigned) =
            (case result of
               Returns (success, sent_via_websocket) \<Rightarrow>
                 if success then mark_sent (utcnow env) sent_via_websocket n
                 else (handle_failed_notification (retry_delay env) (utcnow env) n None, False)
             | Raises e \<Rightarrow>
                 (handle_failed_notification (retry_delay env) (utcnow env) n (Some e), False))
      in (db_commit n data_assigned obj, conns1, calls))"

text \<open>A send attempt has failed when the sender answered false or an exception was raised.\<close>

definition attempt_failed :: "collaborators \<Rightarrow> registry \<Rightarrow> Notification \<Rightarrow> bool" where
  "attempt_failed env conns n =
     (case fst (deliver env conns n) of
        Returns (success, _) \<Rightarrow> \<not> success
      | Raises _ \<Rightarrow> True)"

subsection \<open>process_event\<close>

definition get_user_preferences ::
  "world \<Rightarrow> string \<Rightarrow> UserNotificationPreference option" where
  "get_user_preferences w uid = find (\<lambda>p. pref_user_id p = uid) (preferences_table w)"

definition get_templates :: "world \<Rightarrow> string \<Rightarrow> NotificationTemplate list" where
  "get_templates w evt =
     filter (\<lambda>t. tpl_event_type t = evt \<and> is_active t = Some 1) (templates_table w)"

definition create_notification ::
  "timestamp \<Rightarrow> nat \<Rightarrow> string \<Rightarrow> NotificationType \<Rightarrow> string \<Rightarrow> string \<Rightarrow> dict \<Rightarrow>
     NotificationPriority \<Rightarrow> string option \<Rightarrow> string option \<Rightarrow> string option \<Rightarrow>
     string option \<Rightarrow> Notification" where
  "create_notification now fresh uid ty evt bd d prio email token subj ttl =
     \<lparr>notification_id = fresh, user_id = uid, notification_type = ty, status = PENDING,
      priority = prio, recipient_email = email, recipient_fcm_token = token,
      subject = subj, title = ttl, body = bd, data = Some d, event_type = evt,
      retry_count = 0, max_retries = 3, next_retry_at = None, error_message = None,
      created_at = now, sent_at = None\<rparr>"

text \<open>
  One iteration of the loop over the templates, after the preference check: \<open>Inl\<close> is the
  \<open>KeyError\<close> of \<open>rendered['subject']\<close> or \<open>rendered['title']\<close> (given by the
  missing key), \<open>Inr None\<close> the skip with a warning, \<open>Inr (Some n)\<close> the notification
  created.
\<close>

definition build_notification ::
  "timestamp \<Rightarrow> nat \<Rightarrow> UserNotificationPreference option \<Rightarrow> NotificationEvent \<Rightarrow>
     NotificationTemplate \<Rightarrow> string + Notification option" where
  "build_notification now fresh preferences event template =
     (let r = render_template template (ev_data event)
      in case tpl_notification_type template of
           EMAIL \<Rightarrow>
             if truthy_str (ev_user_email event)
             then (case rendered_subject r of
                     None \<Rightarrow> Inl ''subject''
                   | Some s \<Rightarrow>
                       Inr (Some (create_notification now fresh (ev_user_id event) EMAIL
                                    (ev_event_type event) (rendered_body r) (ev_data event)
                                    (tpl_priority template) (ev_user_email event) None (Some s) None)))
             else Inr None
         | PUSH \<Rightarrow>
             (let token = (if truthy_str (ev_fcm_token event) then ev_fcm_token event
                           else (case preferences of None \<Rightarrow> None | Some p \<Rightarrow> fcm_token p))
              in if truthy_str token
                 then (case rendered_title r of
                         None \<Rightarrow> Inl ''title''
                       | Some t \<Rightarrow>
                           Inr (Some (create_notification now fresh (ev_user_id event) PUSH
                                        (ev_event_type event) (rendered_body r) (ev_data event)
                                        (tpl_priority template) None token None (Some t))))
                 else Inr None))"

text \<open>
  The first loop of \<open>process_event\<close>: the notifications created (each one is committed when
  it is created) and the exception that ended the loop, if any.
\<close>

fun create_loop ::
  "timestamp \<Rightarrow> nat \<Rightarrow> UserNotificationPreference option \<Rightarrow> NotificationEvent \<Rightarrow>
     NotificationTemplate list \<Rightarrow> Notification list \<times> string option" where
  "create_loop now fresh preferences event [] = ([], None)"
| "create_loop now fresh preferences event (t # ts) =
     (if \<not> should_send_notification preferences t (ev_event_type event)
      then create_loop now fresh preferences event ts
      else (case build_notification now fresh preferences event t of
              Inl e \<Rightarrow> ([], Some e)
            | Inr None \<Rightarrow> create_loop now fresh preferences event ts
            | Inr (Some n) \<Rightarrow>
                (let (rest, e) = create_loop now (Suc fresh) preferences event ts
                 in (n # rest, e))))"

text \<open>The second loop: every notification is sent, one after the other.\<close>

fun send_all ::
  "collaborators \<Rightarrow> registry \<Rightarrow> Notification list \<Rightarrow>
     Notification list \<times> registry \<times> transport_call list" where
  "send_all env conns [] = ([], conns, [])"
| "send_all env conns (n # ns) =
     (let (n1, conns1, calls1) = send_notification env conns n;
          (ns1, conns2, calls2) = send_all env conns1 ns
      in (n1 # ns1, conns2, calls1 @ calls2))"

text \<open>
  The \<open>try\<close> block of \<open>process_event\<close> with its \<open>except Exception\<close>: the exception caught
  and logged there, if any, and the world afterwards.
\<close>

definition process_event_try ::
  "collaborators \<Rightarrow> world \<Rightarrow> NotificationEvent \<Rightarrow> string option \<times> world" where
  "process_event_try env w event =
     (case query_fault env of
        Some e \<Rightarrow> (Some e, w)
      | None \<Rightarrow>
          (let preferences = get_user_preferences w (ev_user_id event);
               templates = get_templates w (ev_event_type event);
               (created, exc) = create_loop (utcnow env) (length (notifications_table w))
                                  preferences event templates
           in case exc of
                Some e \<Rightarrow> (Some e, w\<lparr>notifications_table := notifications_table w @ created\<rparr>)
              | None \<Rightarrow>
                  (let (sent, conns, calls) = send_all env (active_connections w) created
                   in (None, w\<lparr>notifications_table := notifications_table w @ sent,
                                active_connections := conns,
                                transport_calls := transport_calls w @ calls\<rparr>))))"

text \<open>
  \<open>process_event\<close>: \<open>SessionLocal()\<close> is called before the \<open>try\<close>, \<open>db.close()\<close> in its
  \<open>finally\<close>; an exception of either leaves the method.
\<close>

definition process_event ::
  "collaborators \<Rightarrow> world \<Rightarrow> NotificationEvent \<Rightarrow> unit outcome \<times> world" where
  "process_event env w event =
     (case session_fault env of
        Some e \<Rightarrow> (Raises e, w)
      | None \<Rightarrow>
          (let (logged, w1) = process_event_try env w event
           in case close_fault env of
                Some e \<Rightarrow> (Raises e, w1)
              | None \<Rightarrow> (Returns (), w1)))"

section \<open>Event ingestion adapter (app/consumers/notification_consumer.py)\<close>

text \<open>
  What the first half of \<open>process_notification_event\<close> makes of a transport message:
  an exception other than \<open>ValidationError\<close> (from \<open>json.loads\<close>, the mapping or the
  transformation), a \<open>ValidationError\<close> of \<open>NotificationEvent(**transformed_message)\<close>,
  or the validated event.
\<close>

datatype decoded = Undecodable string | SchemaInvalid string | Decoded NotificationEvent

datatype channel_action = basic_ack | basic_nack bool | basic_reject bool

definition process_notification_event ::
  "collaborators \<Rightarrow> world \<Rightarrow> decoded \<Rightarrow> channel_action list \<times> world" where
  "process_notification_event env w msg =
     (case msg of
        Undecodable e \<Rightarrow> ([basic_nack True], w)
      | SchemaInvalid e \<Rightarrow> ([basic_reject False], w)
      | Decoded event \<Rightarrow>
          (case process_event env w event of
             (Raises e, w1) \<Rightarrow> ([basic_nack True], w1)
           | (Returns _, w1) \<Rightarrow> ([basic_ack], w1)))"

section \<open>Notions used to state the properties\<close>

text \<open>
  The realtime path delivers a notification when it is a push notification and at least one
  of the user's registered connections accepts the payload.
\<close>

definition realtime_delivered :: "collaborators \<Rightarrow> registry \<Rightarrow> Notification \<Rightarrow> bool" where
  "realtime_delivered env conns n =
     (notification_type n = PUSH \<and>
      (case conns (user_id n) of None \<Rightarrow> False | Some s \<Rightarrow> ffilter (ws_accepts env) s \<noteq> {||}))"

text \<open>The provenance tag of a notification: \<open>notification.data.get('sent_via')\<close>.\<close>

definition sent_via :: "Notification \<Rightarrow> json_value option" where
  "sent_via n = (case data n of None \<Rightarrow> None | Some d \<Rightarrow> map_of d ''sent_via'')"

section \<open>Concrete inputs\<close>

definition pref_push_off :: UserNotificationPreference where
  "pref_push_off =
     \<lparr>pref_user_id = ''u1'', fcm_token = None, email_enabled = Some 1, push_enabled = Some 0,
      event_preferences = Some [(''RESERVATION_CONFIRMED'', [(''push'', True)])]\<rparr>"

definition pref_all_on :: UserNotificationPreference where
  "pref_all_on =
     \<lparr>pref_user_id = ''u1'', fcm_token = None, email_enabled = Some 1, push_enabled = Some 1,
      event_preferences =
        Some [(''RESERVATION_CONFIRMED'', [(''push'', False), (''email'', True)])]\<rparr>"

definition push_template :: NotificationTemplate where
  "push_template =
     \<lparr>tpl_event_type = ''RESERVATION_CONFIRMED'', tpl_notification_type = PUSH,
      subject_template = None, title_template = Some ''Reserved'',
      body_template = ''Your spot at {parking_name}'', tpl_priority = NORMAL,
      is_active = Some 1\<rparr>"

definition env_ok :: collaborators where
  "env_ok = \<lparr>email_send = (\<lambda>n. Returns True), push_send = (\<lambda>n. Returns True),
             ws_accepts = (\<lambda>ws. True), utcnow = 1000, retry_delay = 60,
             session_fault = None, query_fault = None, close_fault = None\<rparr>"

definition env_refusing :: collaborators where
  "env_refusing =
     \<lparr>email_send = (\<lambda>n. Returns False), push_send = (\<lambda>n. Returns False),
      ws_accepts = (\<lambda>ws. False), utcnow = 2000, retry_delay = 60,
      session_fault = None, query_fault = None, close_fault = None\<rparr>"

definition env_raising :: collaborators where
  "env_raising =
     \<lparr>email_send = (\<lambda>n. Raises ''SMTP down''), push_send = (\<lambda>n. Raises ''FCM down''),
      ws_accepts = (\<lambda>ws. False), utcnow = 1500, retry_delay = 60,
      session_fault = None, query_fault = None, close_fault = None\<rparr>"

definition email_notification :: Notification where
  "email_notification =
     create_notification 500 0 ''u1'' EMAIL ''RESERVATION_CONFIRMED'' ''Your spot at Lot1''
       [(''parking_name'', JStr ''Lot1'')] NORMAL (Some ''a@b.com'') None (Some ''Reserved'') None"

definition push_notification :: Notification where
  "push_notification =
     create_notification 500 1 ''u1'' PUSH ''RESERVATION_CONFIRMED'' ''Your spot at Lot1''
       [(''parking_name'', JStr ''Lot1'')] NORMAL None (Some ''tok-1'') None (Some ''Reserved'')"

definition one_connection :: registry where
  "one_connection = [''u1'' \<mapsto> {|7|}]"

text \<open>A call of the email sender among the transports called.\<close>

fun is_email_call :: "transport_call \<Rightarrow> bool" where
  "is_email_call (CallEmail a) = True"
| "is_email_call (CallWebsocket u) = False"
| "is_email_call (CallPush t) = False"

definition email_template :: NotificationTemplate where
  "email_template =
     \<lparr>tpl_event_type = ''RESERVATION_CONFIRMED'', tpl_notification_type = EMAIL,
      subject_template = Some ''Reservation at {parking_name}'', title_template = None,
      body_template = ''Your spot at {parking_name}'', tpl_priority = NORMAL,
      is_active = Some 1\<rparr>"

definition email_template_no_subject :: NotificationTemplate where
  "email_template_no_subject = email_template\<lparr>subject_template := None\<rparr>"

definition event_no_email :: NotificationEvent where
  "event_no_email =
     \<lparr>ev_user_id = ''u1'', ev_user_email = None, ev_fcm_token = Some ''tok-1'',
      ev_event_type = ''RESERVATION_CONFIRMED'',
      ev_data = [(''parking_name'', JStr ''Lot1'')], ev_priority = NORMAL\<rparr>"

definition event_with_email :: NotificationEvent where
  "event_with_email = event_no_email\<lparr>ev_user_email := Some ''a@b.com''\<rparr>"

definition world_two_templates :: world where
  "world_two_templates =
     \<lparr>preferences_table = [], templates_table = [email_template, push_template],
      notifications_table = [], active_connections = Map.empty, transport_calls = []\<rparr>"

definition world_no_subject :: world where
  "world_no_subject =
     \<lparr>preferences_table = [], templates_table = [email_template_no_subject],
      notifications_table = [], active_connections = Map.empty, transport_calls = []\<rparr>"

text \<open>
  Replacing one key in a template of segments, and resolving every key of a data
  dictionary: the placeholder of a key that is present becomes literal text.
\<close>

fun subst_segment :: "string \<Rightarrow> string \<Rightarrow> segment \<Rightarrow> segment" where
  "subst_segment k v (Lit s) = Lit s"
| "subst_segment k v (Hole k') = (if k' = k then Lit v else Hole k')"

fun resolve_segment :: "dict \<Rightarrow> segment \<Rightarrow> segment" where
  "resolve_segment d (Lit s) = Lit s"
| "resolve_segment d (Hole k) =
     (case map_of d k of Some v \<Rightarrow> Lit (str_value v) | None \<Rightarrow> Hole k)"

definition greeting_template :: "segment list" where
  "greeting_template =
     [Lit ''Hello '', Hole ''name'', Lit '', your order '', Hole ''order_id'', Lit '' is ready'']"

definition greeting_data :: dict where
  "greeting_data = [(''name'', JStr ''John''), (''count'', JInt 12)]"

definition chained_data :: dict where
  "chained_data = [(''a'', JStr ''{b}''), (''b'', JStr ''x'')]"

definition late_data :: dict where
  "late_data = [(''b'', JStr ''x''), (''a'', JStr ''{b}'')]"

definition nested_data :: dict where
  "nested_data = [(''k'', JStr ''cd''), (''abcd'', JStr ''X'')]"

section \<open>Preference resolver: global flags and per-event overrides\<close>

text \<open>
  Claim C1 as stated fails: with \<open>push_enabled\<close> 0 and the override
  \<open>{RESERVATION_CONFIRMED: {push: true}}\<close>, a push template is refused, because the global
  flags are checked, and answered, before the overrides are looked at.
\<close>

theorem should_send_override_counterexample:
  "\<not> should_send_notification (Some pref_push_off) push_template ''RESERVATION_CONFIRMED''"
  by (simp add: should_send_notification_def pref_push_off_def push_template_def)

text \<open>
  Claim C1, amended: when the global flag of the template's channel is off, the resolver
  answers false whatever the override says; when it is on, an explicit boolean override for
  the event type and the channel is the answer, for both channels and both boolean values.
\<close>

theorem should_send_override_amended:
  "(\<not> truthy_int (global_flag p (tpl_notification_type t)) \<longrightarrow>
      \<not> should_send_notification (Some p) t evt) \<and>
   (truthy_int (global_flag p (tpl_notification_type t)) \<longrightarrow>
      event_override p evt (tpl_notification_type t) = Some b \<longrightarrow>
      should_send_notification (Some p) t evt = b)"
  by (cases "tpl_notification_type t")
     (auto simp: should_send_notification_def event_override_def split: option.splits)

theorem should_send_override_amended_witness:
  "\<not> truthy_int (global_flag pref_push_off PUSH) \<and>
   \<not> should_send_notification (Some pref_push_off) push_template ''RESERVATION_CONFIRMED'' \<and>
   truthy_int (global_flag pref_all_on PUSH) \<and>
   event_override pref_all_on ''RESERVATION_CONFIRMED'' PUSH = Some False \<and>
   should_send_notification (Some pref_all_on) push_template ''RESERVATION_CONFIRMED'' = False"
  using should_send_override_amended
          [of pref_push_off push_template "''RESERVATION_CONFIRMED''" True]
        should_send_override_amended
          [of pref_all_on push_template "''RESERVATION_CONFIRMED''" False]
  by (simp add: pref_push_off_def pref_all_on_def push_template_def event_override_def)

section \<open>Retry state machine\<close>

lemma handle_failed_fields:
  "retry_count (handle_failed_notification d now n msg) = retry_count n + 1"
  "max_retries (handle_failed_notification d now n msg) = max_retries n"
  "status (handle_failed_notification d now n msg) =
     (if retry_count n + 1 < max_retries n then RETRYING else FAILED)"
  by (simp_all add: handle_failed_notification_def Let_def)

lemma handle_failed_type:
  "notification_type (handle_failed_notification d now n msg) = notification_type n"
  by (simp add: handle_failed_notification_def Let_def)

text \<open>
  Claim C3: the failure handler adds exactly one to \<open>retry_count\<close>; when the new count is
  below \<open>max_retries\<close> the status becomes RETRYING and \<open>next_retry_at\<close> is now plus
  \<open>retry_delay\<close> seconds times the new count (linear backoff); when the new count equals
  \<open>max_retries\<close> the status becomes FAILED and the handler schedules nothing:
  \<open>next_retry_at\<close> is left as it was.
\<close>

theorem handle_failed_transition:
  "(let n' = handle_failed_notification d now n msg
    in retry_count n' = retry_count n + 1 \<and>
       (retry_count n' < max_retries n' \<longrightarrow>
          status n' = RETRYING \<and>
          next_retry_at n' = Some (now + timedelta_seconds (d * retry_count n'))) \<and>
       (retry_count n' = max_retries n' \<longrightarrow>
          status n' = FAILED \<and> next_retry_at n' = next_retry_at n))"
  by (simp add: handle_failed_notification_def Let_def)

theorem handle_failed_transition_witness:
  "retry_count (handle_failed_notification 60 2000 email_notification None) = 1 \<and>
   status (handle_failed_notification 60 2000 email_notification None) = RETRYING \<and>
   next_retry_at (handle_failed_notification 60 2000 email_notification None) = Some 60002000 \<and>
   status (handle_failed_notification 60 2000 (email_notification\<lparr>retry_count := 2\<rparr>) None)
     = FAILED \<and>
   next_retry_at (handle_failed_notification 60 2000 (email_notification\<lparr>retry_count := 2\<rparr>) None)
     = None"
  using handle_failed_transition [of 60 2000 email_notification None]
        handle_failed_transition [of 60 2000 "email_notification\<lparr>retry_count := 2\<rparr>" None]
  by (simp add: Let_def email_notification_def create_notification_def timedelta_seconds_def
        handle_failed_notification_def)

lemma db_commit_handle_failed:
  "db_commit n False (handle_failed_notification d now n msg) =
     handle_failed_notification d now n msg"
  by (simp add: db_commit_def handle_failed_notification_def Let_def)

lemma send_notification_result:
  "fst (send_notification env conns n) =
     (case fst (deliver env conns n) of
        Returns (success, v) \<Rightarrow>
          if success
          then db_commit n (snd (mark_sent (utcnow env) v n)) (fst (mark_sent (utcnow env) v n))
          else handle_failed_notification (retry_delay env) (utcnow env) n None
      | Raises e \<Rightarrow> handle_failed_notification (retry_delay env) (utcnow env) n (Some e))"
  by (auto simp: send_notification_def db_commit_handle_failed
      split: prod.splits outcome.splits)

lemma mark_sent_type:
  "notification_type (db_commit n (snd (mark_sent now v n)) (fst (mark_sent now v n))) =
     notification_type n"
  by (simp add: mark_sent_def db_commit_def Let_def)

lemma send_notification_type:
  "notification_type (fst (send_notification env conns n)) = notification_type n"
  by (simp add: send_notification_result handle_failed_type mark_sent_type
      split: prod.splits outcome.splits)

lemma send_notification_failed:
  assumes "attempt_failed env conns n"
  shows "\<exists>msg. fst (send_notification env conns n) =
           handle_failed_notification (retry_delay env) (utcnow env) n msg"
proof (cases "fst (deliver env conns n)")
  case (Returns r)
  obtain s v where r: "r = (s, v)" by (cases r)
  from assms Returns r have "\<not> s" by (simp add: attempt_failed_def)
  with Returns r show ?thesis
    by (auto simp: send_notification_result)
next
  case (Raises e)
  then show ?thesis
    by (auto simp: send_notification_result)
qed

lemma email_attempt_failed:
  "notification_type n = EMAIL \<Longrightarrow> email_send env n \<noteq> Returns True \<Longrightarrow>
     attempt_failed env conns n"
  by (auto simp: attempt_failed_def deliver_def split: outcome.splits)

lemma env_refusing_email: "email_send env_refusing n = Returns False"
  by (simp add: env_refusing_def)

lemma env_raising_email: "email_send env_raising n = Raises ''SMTP down''"
  by (simp add: env_raising_def)

lemma email_notification_fields:
  "notification_type email_notification = EMAIL"
  "status email_notification = PENDING"
  "retry_count email_notification = 0"
  "max_retries email_notification = 3"
  "error_message email_notification = None"
  by (simp_all add: email_notification_def create_notification_def)

text \<open>
  Claim C4: a notification with \<open>retry_count\<close> 0 and \<open>max_retries\<close> 3 whose next three
  send attempts fail goes through PENDING, RETRYING, RETRYING, FAILED; \<open>retry_count\<close> is
  3 in the FAILED state and never exceeds \<open>max_retries\<close> on the way.
\<close>

theorem three_failures_sequence:
  assumes "status n0 = PENDING" and "retry_count n0 = 0" and "max_retries n0 = 3"
    and "attempt_failed e1 c1 n0" and "n1 = fst (send_notification e1 c1 n0)"
    and "attempt_failed e2 c2 n1" and "n2 = fst (send_notification e2 c2 n1)"
    and "attempt_failed e3 c3 n2" and "n3 = fst (send_notification e3 c3 n2)"
  shows "map status [n0, n1, n2, n3] = [PENDING, RETRYING, RETRYING, FAILED] \<and>
         map retry_count [n0, n1, n2, n3] = [0, 1, 2, 3] \<and>
         list_all (\<lambda>m. retry_count m \<le> max_retries m) [n0, n1, n2, n3]"
proof -
  obtain m1 where n1: "n1 = handle_failed_notification (retry_delay e1) (utcnow e1) n0 m1"
    using send_notification_failed [OF assms(4)] assms(5) by auto
  obtain m2 where n2: "n2 = handle_failed_notification (retry_delay e2) (utcnow e2) n1 m2"
    using send_notification_failed [OF assms(6)] assms(7) by auto
  obtain m3 where n3: "n3 = handle_failed_notification (retry_delay e3) (utcnow e3) n2 m3"
    using send_notification_failed [OF assms(8)] assms(9) by auto
  have f1: "retry_count n1 = 1" "max_retries n1 = 3" "status n1 = RETRYING"
    using assms(2,3) by (simp_all add: n1 handle_failed_fields)
  have f2: "retry_count n2 = 2" "max_retries n2 = 3" "status n2 = RETRYING"
    using f1 by (simp_all add: n2 handle_failed_fields)
  have f3: "retry_count n3 = 3" "max_retries n3 = 3" "status n3 = FAILED"
    using f2 by (simp_all add: n3 handle_failed_fields)
  show ?thesis using assms(1,2,3) f1 f2 f3 by simp
qed

theorem three_failures_sequence_witness:
  "map status
     [email_notification,
      fst (send_notification env_refusing Map.empty email_notification),
      fst (send_notification env_raising Map.empty
             (fst (send_notification env_refusing Map.empty email_notification))),
      fst (send_notification env_refusing Map.empty
             (fst (send_notification env_raising Map.empty
                (fst (send_notification env_refusing Map.empty email_notification)))))]
   = [PENDING, RETRYING, RETRYING, FAILED]"
proof -
  let ?n0 = email_notification
  let ?n1 = "fst (send_notification env_refusing Map.empty ?n0)"
  let ?n2 = "fst (send_notification env_raising Map.empty ?n1)"
  note ty = email_notification_fields(1)
  have a1: "attempt_failed env_refusing Map.empty ?n0"
    by (rule email_attempt_failed) (simp_all add: ty env_refusing_email)
  have a2: "attempt_failed env_raising Map.empty ?n1"
    by (rule email_attempt_failed) (simp_all add: ty send_notification_type env_raising_email)
  have a3: "attempt_failed env_refusing Map.empty ?n2"
    by (rule email_attempt_failed) (simp_all add: ty send_notification_type env_refusing_email)
  show ?thesis
    using three_failures_sequence [OF email_notification_fields(2,3,4) a1 refl a2 refl a3 refl]
    by simp
qed

section \<open>Send attempts: error message and provenance\<close>

lemma map_of_dict_set: "map_of (dict_set k v d) k = Some v"
  by (induction d) auto

lemma send_notification_raised:
  "fst (deliver env conns n) = Raises e \<Longrightarrow>
     fst (send_notification env conns n) =
       handle_failed_notification (retry_delay env) (utcnow env) n (Some e)"
  by (simp add: send_notification_result)

lemma send_notification_refused:
  "fst (deliver env conns n) = Returns (False, v) \<Longrightarrow>
     fst (send_notification env conns n) =
       handle_failed_notification (retry_delay env) (utcnow env) n None"
  by (simp add: send_notification_result)

lemma handle_failed_error_message:
  "error_message (handle_failed_notification d now n msg) =
     (if truthy_str msg then msg else error_message n)"
  by (simp add: handle_failed_notification_def Let_def)

text \<open>
  Claim C8 as stated fails: when the sender answers false, \<open>_handle_failed_notification\<close>
  is called without a message and \<open>error_message\<close> is not written. After an attempt that
  raised \<open>SMTP down\<close> and a second attempt that the sender refused, the field still holds
  the first attempt's message; after a refused first attempt it holds nothing.
\<close>

theorem error_message_not_overwritten_counterexample:
  "attempt_failed env_raising Map.empty email_notification \<and>
   error_message (fst (send_notification env_raising Map.empty email_notification))
     = Some ''SMTP down'' \<and>
   attempt_failed env_refusing Map.empty
     (fst (send_notification env_raising Map.empty email_notification)) \<and>
   error_message
     (fst (send_notification env_refusing Map.empty
        (fst (send_notification env_raising Map.empty email_notification))))
     = Some ''SMTP down'' \<and>
   attempt_failed env_refusing Map.empty email_notification \<and>
   error_message (fst (send_notification env_refusing Map.empty email_notification)) = None"
proof -
  let ?n1 = "fst (send_notification env_raising Map.empty email_notification)"
  note ty = email_notification_fields(1)
  have d0: "fst (deliver env_raising Map.empty email_notification) = Raises ''SMTP down''"
    by (simp add: deliver_def ty env_raising_email)
  have d1: "fst (deliver env_refusing Map.empty ?n1) = Returns (False, False)"
    by (simp add: deliver_def ty send_notification_type env_refusing_email)
  have d2: "fst (deliver env_refusing Map.empty email_notification) = Returns (False, False)"
    by (simp add: deliver_def ty env_refusing_email)
  have e1: "error_message ?n1 = Some ''SMTP down''"
    by (simp add: send_notification_raised [OF d0] handle_failed_error_message)
  show ?thesis
    using e1
    by (simp add: attempt_failed_def d0 d1 d2 send_notification_refused [OF d1]
        send_notification_refused [OF d2] handle_failed_error_message
        email_notification_fields)
qed

text \<open>
  Claim C8, amended: a send attempt that fails with a thrown error whose message is not
  empty overwrites \<open>error_message\<close> with that message, keeping no history; a send attempt
  that fails because the sender answered false, or with an error whose message is empty,
  leaves \<open>error_message\<close> as it was.
\<close>

theorem error_message_on_failure:
  "(fst (deliver env conns n) = Raises e \<and> e \<noteq> [] \<longrightarrow>
      error_message (fst (send_notification env conns n)) = Some e) \<and>
   (fst (deliver env conns n) = Raises [] \<longrightarrow>
      error_message (fst (send_notification env conns n)) = error_message n) \<and>
   (fst (deliver env conns n) = Returns (False, v) \<longrightarrow>
      error_message (fst (send_notification env conns n)) = error_message n)"
  by (auto simp: send_notification_raised send_notification_refused handle_failed_error_message)

theorem error_message_on_failure_witness:
  "fst (deliver env_raising Map.empty email_notification) = Raises ''SMTP down'' \<and>
   error_message (fst (send_notification env_raising Map.empty email_notification))
     = Some ''SMTP down'' \<and>
   fst (deliver env_refusing Map.empty email_notification) = Returns (False, False) \<and>
   error_message (fst (send_notification env_refusing Map.empty email_notification)) = None"
proof -
  note ty = email_notification_fields(1)
  have d0: "fst (deliver env_raising Map.empty email_notification) = Raises ''SMTP down''"
    by (simp add: deliver_def ty env_raising_email)
  have d2: "fst (deliver env_refusing Map.empty email_notification) = Returns (False, False)"
    by (simp add: deliver_def ty env_refusing_email)
  show ?thesis
    using error_message_on_failure [of env_raising Map.empty email_notification "''SMTP down''" False]
          error_message_on_failure [of env_refusing Map.empty email_notification "''x''" False]
    by (simp add: d0 d2 email_notification_fields)
qed

lemma fcard_pos: "(0 < fcard s) = (s \<noteq> {||})"
  by (cases "s = {||}") auto

lemma deliver_realtime:
  assumes "realtime_delivered env conns n"
  shows "fst (deliver env conns n) = Returns (True, True)"
    and "snd (snd (deliver env conns n)) = [CallWebsocket (user_id n)]"
  using assms
  by (auto simp: realtime_delivered_def deliver_def manager_is_user_connected_def
      manager_send_notification_def fcard_pos Let_def split: option.splits)

lemma deliver_via_websocket:
  "fst (deliver env conns n) = Returns (s, v) \<Longrightarrow> v = realtime_delivered env conns n"
  by (auto simp: realtime_delivered_def deliver_def manager_is_user_connected_def
      manager_send_notification_def fcard_pos Let_def
      split: option.splits NotificationType.splits outcome.splits if_splits)

lemma send_notification_calls:
  "snd (snd (send_notification env conns n)) = snd (snd (deliver env conns n))"
  by (auto simp: send_notification_def split: prod.splits)

lemma ffilter_finsert_if:
  "ffilter P (finsert x A) = (if P x then finsert x (ffilter P A) else ffilter P A)"
  by auto

lemma push_notification_fields:
  "notification_type push_notification = PUSH"
  "user_id push_notification = ''u1''"
  "data push_notification = Some [(''parking_name'', JStr ''Lot1'')]"
  by (simp_all add: push_notification_def create_notification_def)

text \<open>
  What a successful send attempt leaves behind: the notification is SENT and stamped; its
  data carries the tag only when the data was empty or absent before, so that a new
  dictionary was assigned; a data dictionary that was not empty is read back as it was.
\<close>

lemma sent_notification_fields:
  assumes "\<not> attempt_failed env conns n"
  shows "status (fst (send_notification env conns n)) = SENT"
    and "sent_at (fst (send_notification env conns n)) = Some (utcnow env)"
    and "data (fst (send_notification env conns n)) =
           (if truthy_dict (data n) then data n
            else Some [(''sent_via'',
                        JStr (if realtime_delivered env conns n then ''websocket''
                              else NotificationType_value (notification_type n)))])"
proof -
  from assms obtain v where d: "fst (deliver env conns n) = Returns (True, v)"
    by (auto simp: attempt_failed_def split: outcome.splits)
  have v: "v = realtime_delivered env conns n" by (rule deliver_via_websocket [OF d])
  have s: "fst (send_notification env conns n) =
             db_commit n (snd (mark_sent (utcnow env) v n)) (fst (mark_sent (utcnow env) v n))"
    by (simp add: send_notification_result d)
  show "status (fst (send_notification env conns n)) = SENT"
    by (simp add: s mark_sent_def db_commit_def Let_def)
  show "sent_at (fst (send_notification env conns n)) = Some (utcnow env)"
    by (simp add: s mark_sent_def db_commit_def Let_def)
  show "data (fst (send_notification env conns n)) =
           (if truthy_dict (data n) then data n
            else Some [(''sent_via'',
                        JStr (if realtime_delivered env conns n then ''websocket''
                              else NotificationType_value (notification_type n)))])"
    by (simp add: s v mark_sent_def db_commit_def Let_def)
qed

lemma provenance_kept_for_empty_data:
  "\<not> attempt_failed env conns n \<Longrightarrow> \<not> truthy_dict (data n) \<Longrightarrow>
     sent_via (fst (send_notification env conns n)) =
       Some (JStr (if realtime_delivered env conns n then ''websocket''
                   else NotificationType_value (notification_type n)))"
  by (simp add: sent_via_def sent_notification_fields(3))

lemma provenance_dropped_for_other_data:
  "\<not> attempt_failed env conns n \<Longrightarrow> truthy_dict (data n) \<Longrightarrow>
     sent_via (fst (send_notification env conns n)) = sent_via n"
  by (simp add: sent_via_def sent_notification_fields(3))

text \<open>
  Claim C9 does not hold of the code. For the push notification that \<open>process_event\<close>
  creates for an event with data \<open>{parking_name: Lot1}\<close>, and a user with one registered
  connection that accepts the payload, the realtime path delivers the notification and the
  push sender is not called, but after \<open>_send_notification\<close> the data is the dictionary it
  was and has no \<open>sent_via\<close>: the tag was written in place into a dictionary of a plain JSON
  column and is gone with the commit. With empty data, the case of the repository's test
  \<open>test_send_push_notification_via_websocket\<close>, the tag is kept.
\<close>

theorem provenance_lost_at_commit:
  "realtime_delivered env_ok one_connection push_notification \<and>
   \<not> attempt_failed env_ok one_connection push_notification \<and>
   snd (snd (send_notification env_ok one_connection push_notification))
     = [CallWebsocket ''u1''] \<and>
   status (fst (send_notification env_ok one_connection push_notification)) = SENT \<and>
   data (fst (send_notification env_ok one_connection push_notification))
     = Some [(''parking_name'', JStr ''Lot1'')] \<and>
   sent_via (fst (send_notification env_ok one_connection push_notification)) = None \<and>
   sent_via (fst (send_notification env_ok one_connection (push_notification\<lparr>data := Some []\<rparr>)))
     = Some (JStr ''websocket'')"
proof -
  let ?empty = "push_notification\<lparr>data := Some []\<rparr>"
  have r: "realtime_delivered env_ok one_connection push_notification"
    by (simp add: realtime_delivered_def push_notification_fields one_connection_def env_ok_def
        ffilter_finsert_if)
  have r': "realtime_delivered env_ok one_connection ?empty"
    using r by (simp add: realtime_delivered_def)
  have ok: "\<not> attempt_failed env_ok one_connection push_notification"
    by (simp add: attempt_failed_def deliver_realtime(1) [OF r])
  have ok': "\<not> attempt_failed env_ok one_connection ?empty"
    by (simp add: attempt_failed_def deliver_realtime(1) [OF r'])
  have calls: "snd (snd (send_notification env_ok one_connection push_notification))
                 = [CallWebsocket ''u1'']"
    by (simp add: send_notification_calls deliver_realtime(2) [OF r] push_notification_fields)
  have d: "data (fst (send_notification env_ok one_connection push_notification))
             = Some [(''parking_name'', JStr ''Lot1'')]"
    by (simp add: sent_notification_fields(3) [OF ok] push_notification_fields)
  have lost: "sent_via (fst (send_notification env_ok one_connection push_notification)) = None"
    by (simp add: sent_via_def d)
  have kept: "sent_via (fst (send_notification env_ok one_connection ?empty))
                = Some (JStr ''websocket'')"
    using provenance_kept_for_empty_data [OF ok'] r' by simp
  show ?thesis
    using r ok calls d lost kept sent_notification_fields(1) [OF ok] by simp
qed

section \<open>Realtime connection registry: no user with an empty connection set\<close>

lemma registry_inv_connect:
  "registry_inv conns \<Longrightarrow> manager_connect a ws uid conns = Inr conns' \<Longrightarrow> registry_inv conns'"
  by (auto simp: registry_inv_def manager_connect_def Let_def split: outcome.splits if_splits)

lemma registry_inv_disconnect:
  "registry_inv conns \<Longrightarrow> registry_inv (manager_disconnect ws uid conns)"
  by (auto simp: registry_inv_def manager_disconnect_def Let_def split: option.splits if_splits)

lemma registry_inv_send:
  "registry_inv conns \<Longrightarrow> registry_inv (snd (manager_send_notification acc uid conns))"
  by (auto simp: registry_inv_def manager_send_notification_def Let_def
      split: option.splits if_splits)

lemma registry_inv_broadcast:
  "registry_inv conns \<Longrightarrow> registry_inv (manager_broadcast acc conns)"
  by (auto simp: registry_inv_def manager_broadcast_def Let_def split: option.splits if_splits)

lemma connected_iff_key:
  "registry_inv conns \<Longrightarrow> manager_is_user_connected conns uid = (uid \<in> dom conns)"
  by (auto simp: registry_inv_def manager_is_user_connected_def fcard_pos split: option.splits)

text \<open>
  Claim C10: when no user is registered with an empty connection set, the same holds after
  \<open>connect\<close>, \<open>disconnect\<close>, \<open>send_notification\<close> and \<open>broadcast\<close>, and
  \<open>is_user_connected\<close> is true exactly for the keys of \<open>active_connections\<close>.
\<close>

theorem registry_invariant:
  assumes "registry_inv conns"
  shows "(\<forall>conns'. manager_connect a ws uid conns = Inr conns' \<longrightarrow> registry_inv conns') \<and>
         registry_inv (manager_disconnect ws uid conns) \<and>
         registry_inv (snd (manager_send_notification acc uid conns)) \<and>
         registry_inv (manager_broadcast acc conns) \<and>
         manager_is_user_connected conns uid = (uid \<in> dom conns)"
  using assms registry_inv_connect registry_inv_disconnect registry_inv_send
    registry_inv_broadcast connected_iff_key by blast

lemma registry_inv_one: "registry_inv one_connection"
  by (simp add: registry_inv_def one_connection_def)

theorem registry_invariant_witness:
  "registry_inv one_connection \<and>
   manager_disconnect 7 ''u1'' one_connection = Map.empty \<and>
   registry_inv (manager_disconnect 7 ''u1'' one_connection) \<and>
   registry_inv (snd (manager_send_notification (\<lambda>ws. False) ''u1'' one_connection)) \<and>
   registry_inv (manager_broadcast (\<lambda>ws. False) one_connection) \<and>
   manager_is_user_connected one_connection ''u1'' \<and>
   \<not> manager_is_user_connected one_connection ''u2''"
  using registry_invariant [OF registry_inv_one, of "Returns ()" 7 "''u1''" "\<lambda>ws. False"]
        registry_invariant [OF registry_inv_one, of "Returns ()" 7 "''u2''" "\<lambda>ws. False"]
  by (auto simp: registry_inv_one one_connection_def manager_disconnect_def)

section \<open>Orchestrator: events without an email address\<close>

lemma build_without_address:
  assumes "\<not> truthy_str (ev_user_email event)"
  shows "tpl_notification_type t = EMAIL \<Longrightarrow> build_notification now fresh prefs event t = Inr None"
    and "build_notification now fresh prefs event t = Inr (Some n) \<Longrightarrow> notification_type n = PUSH"
  using assms
  by (auto simp: build_notification_def Let_def create_notification_def
      split: NotificationType.splits option.splits if_splits)

lemma create_loop_without_address:
  assumes "\<not> truthy_str (ev_user_email event)"
  shows "list_all (\<lambda>n. notification_type n = PUSH) (fst (create_loop now fresh prefs event ts))"
proof (induction ts arbitrary: fresh)
  case Nil
  show ?case by simp
next
  case (Cons t ts)
  show ?case
    using Cons.IH [of fresh] Cons.IH [of "Suc fresh"] build_without_address(2) [OF assms]
    by (auto split: sum.splits option.splits prod.splits)
qed

lemma deliver_push_calls:
  "notification_type n = PUSH \<Longrightarrow> list_all (\<lambda>c. \<not> is_email_call c) (snd (snd (deliver env conns n)))"
  by (auto simp: deliver_def Let_def split: prod.splits outcome.splits)

lemma send_all_push:
  "list_all (\<lambda>n. notification_type n = PUSH) ns \<Longrightarrow>
     list_all (\<lambda>n. notification_type n = PUSH) (fst (send_all env conns ns)) \<and>
     list_all (\<lambda>c. \<not> is_email_call c) (snd (snd (send_all env conns ns)))"
proof (induction ns arbitrary: conns)
  case Nil
  show ?case by simp
next
  case (Cons n ns)
  obtain n1 conns1 calls1 where s: "send_notification env conns n = (n1, conns1, calls1)"
    by (cases "send_notification env conns n") auto
  obtain ns1 conns2 calls2 where r: "send_all env conns1 ns = (ns1, conns2, calls2)"
    by (cases "send_all env conns1 ns") auto
  have ty: "notification_type n1 = PUSH"
    using send_notification_type [of env conns n] s Cons.prems by simp
  have c1: "list_all (\<lambda>c. \<not> is_email_call c) calls1"
    using deliver_push_calls [of n env conns] send_notification_calls [of env conns n] s Cons.prems
    by simp
  from Cons.IH [of conns1] Cons.prems r
  have "list_all (\<lambda>n. notification_type n = PUSH) ns1" "list_all (\<lambda>c. \<not> is_email_call c) calls2"
    by simp_all
  with ty c1 show ?case by (simp add: s r)
qed

text \<open>
  Claim C7: for an event without \<open>user_email\<close> (absent or empty), an email template is
  skipped without an error, every notification that \<open>process_event\<close> adds to the table is
  a push notification, and the email sender is not among the transports it calls.
\<close>

theorem no_email_without_address:
  assumes "\<not> truthy_str (ev_user_email event)"
  shows "(\<forall>now fresh prefs t. tpl_notification_type t = EMAIL \<longrightarrow>
            build_notification now fresh prefs event t = Inr None) \<and>
         (\<exists>created calls.
            notifications_table (snd (process_event env w event)) =
              notifications_table w @ created \<and>
            list_all (\<lambda>n. notification_type n = PUSH) created \<and>
            transport_calls (snd (process_event env w event)) = transport_calls w @ calls \<and>
            list_all (\<lambda>c. \<not> is_email_call c) calls)"
proof (intro conjI allI impI)
  fix now fresh prefs and t :: NotificationTemplate
  assume "tpl_notification_type t = EMAIL"
  then show "build_notification now fresh prefs event t = Inr None"
    by (rule build_without_address(1) [OF assms])
next
  let ?loop = "create_loop (utcnow env) (length (notifications_table w))
                 (get_user_preferences w (ev_user_id event)) event
                 (get_templates w (ev_event_type event))"
  obtain created exc where loop: "?loop = (created, exc)"
    by (cases ?loop) auto
  have created: "list_all (\<lambda>n. notification_type n = PUSH) created"
    using create_loop_without_address [OF assms, of "utcnow env" "length (notifications_table w)"
        "get_user_preferences w (ev_user_id event)" "get_templates w (ev_event_type event)"] loop
    by simp
  obtain sent conns calls where sa: "send_all env (active_connections w) created = (sent, conns, calls)"
    by (cases "send_all env (active_connections w) created") auto
  have sent: "list_all (\<lambda>n. notification_type n = PUSH) sent"
             "list_all (\<lambda>c. \<not> is_email_call c) calls"
    using send_all_push [OF created, of env "active_connections w"] sa by simp_all
  have inner: "\<exists>created calls.
            notifications_table (snd (process_event_try env w event)) =
              notifications_table w @ created \<and>
            list_all (\<lambda>n. notification_type n = PUSH) created \<and>
            transport_calls (snd (process_event_try env w event)) = transport_calls w @ calls \<and>
            list_all (\<lambda>c. \<not> is_email_call c) calls"
  proof (cases "query_fault env")
    case (Some e)
    then have "snd (process_event_try env w event) = w"
      by (simp add: process_event_try_def)
    then show ?thesis by (auto intro: exI [of _ "[]"])
  next
    case None
    show ?thesis
    proof (cases exc)
      case (Some e)
      have "snd (process_event_try env w event) =
              w\<lparr>notifications_table := notifications_table w @ created\<rparr>"
        using None Some loop by (simp add: process_event_try_def Let_def)
      then show ?thesis using created
        by (auto intro!: exI [of _ created] exI [of _ "[]"])
    next
      case n: None
      have "snd (process_event_try env w event) =
              w\<lparr>notifications_table := notifications_table w @ sent,
                active_connections := conns,
                transport_calls := transport_calls w @ calls\<rparr>"
        using None n loop sa by (simp add: process_event_try_def Let_def)
      then show ?thesis using sent
        by (auto intro!: exI [of _ sent] exI [of _ calls])
    qed
  qed
  have "snd (process_event env w event) = w \<or>
        snd (process_event env w event) = snd (process_event_try env w event)"
    by (auto simp: process_event_def Let_def split: option.splits prod.splits)
  then show "\<exists>created calls.
            notifications_table (snd (process_event env w event)) =
              notifications_table w @ created \<and>
            list_all (\<lambda>n. notification_type n = PUSH) created \<and>
            transport_calls (snd (process_event env w event)) = transport_calls w @ calls \<and>
            list_all (\<lambda>c. \<not> is_email_call c) calls"
  proof
    assume "snd (process_event env w event) = w"
    then show ?thesis by (auto intro: exI [of _ "[]"])
  next
    assume "snd (process_event env w event) = snd (process_event_try env w event)"
    with inner show ?thesis by simp
  qed
qed

lemma get_templates_two:
  "get_templates world_two_templates ''RESERVATION_CONFIRMED'' = [email_template, push_template]"
  by (simp add: get_templates_def world_two_templates_def email_template_def push_template_def)

theorem no_email_without_address_witness:
  "\<not> truthy_str (ev_user_email event_no_email) \<and>
   build_notification 1000 0 None event_no_email email_template = Inr None \<and>
   map notification_type
     (notifications_table (snd (process_event env_ok world_two_templates event_no_email)))
     = [PUSH] \<and>
   transport_calls (snd (process_event env_ok world_two_templates event_no_email))
     = [CallPush (Some ''tok-1'')]"
proof -
  have h: "\<not> truthy_str (ev_user_email event_no_email)"
    by (simp add: event_no_email_def)
  have e: "tpl_notification_type email_template = EMAIL"
    by (simp add: email_template_def)
  have run: "map notification_type
     (notifications_table (snd (process_event env_ok world_two_templates event_no_email)))
     = [PUSH] \<and>
   transport_calls (snd (process_event env_ok world_two_templates event_no_email))
     = [CallPush (Some ''tok-1'')]"
    by code_simp
  show ?thesis
    using no_email_without_address [OF h, of env_ok world_two_templates] e h run
    by simp
qed


section \<open>Ingestion adapter: acknowledgement of the transport message\<close>

text \<open>
  Claim C2 as stated fails: an email template without a subject template makes
  \<open>rendered['subject']\<close> raise a \<open>KeyError\<close> inside \<open>process_event\<close>; the method catches
  and logs it, returns normally, and the adapter acknowledges the message.
\<close>

theorem swallowed_exception_counterexample:
  "fst (process_event_try env_ok world_no_subject event_with_email) = Some ''subject'' \<and>
   fst (process_notification_event env_ok world_no_subject (Decoded event_with_email))
     = [basic_ack]"
  by code_simp

lemma process_event_result:
  "fst (process_event env w event) =
     (case session_fault env of
        Some e \<Rightarrow> Raises e
      | None \<Rightarrow> (case close_fault env of Some e \<Rightarrow> Raises e | None \<Rightarrow> Returns ()))"
  by (simp add: process_event_def Let_def split: option.splits prod.splits)

text \<open>
  Claim C2, amended: an exception other than a schema-validation failure that is raised in
  the adapter itself, or that leaves \<open>process_event\<close> (opening or closing the storage
  session), makes the adapter nack with requeue and not ack; a schema-validation failure is
  rejected without requeue; whatever is raised inside the \<open>try\<close> block of \<open>process_event\<close>
  is caught and logged there, and the adapter acks.
\<close>

theorem adapter_acknowledgement:
  "fst (process_notification_event env w (Undecodable e)) = [basic_nack True] \<and>
   fst (process_notification_event env w (SchemaInvalid e)) = [basic_reject False] \<and>
   (session_fault env \<noteq> None \<or> close_fault env \<noteq> None \<longrightarrow>
      fst (process_notification_event env w (Decoded event)) = [basic_nack True]) \<and>
   (session_fault env = None \<and> close_fault env = None \<longrightarrow>
      fst (process_notification_event env w (Decoded event)) = [basic_ack])"
proof -
  have d: "fst (process_notification_event env w (Decoded event)) =
             (case fst (process_event env w event) of
                Raises x \<Rightarrow> [basic_nack True]
              | Returns x \<Rightarrow> [basic_ack])"
    by (simp add: process_notification_event_def split: prod.splits outcome.splits)
  have u: "fst (process_notification_event env w (Undecodable e)) = [basic_nack True]"
          "fst (process_notification_event env w (SchemaInvalid e)) = [basic_reject False]"
    by (simp_all add: process_notification_event_def)
  show ?thesis
    by (auto simp: u d process_event_result split: option.splits)
qed

theorem adapter_acknowledgement_witness:
  "fst (process_notification_event env_ok world_no_subject (Undecodable ''Expecting value''))
     = [basic_nack True] \<and>
   fst (process_notification_event env_ok world_no_subject (SchemaInvalid ''user_id''))
     = [basic_reject False] \<and>
   session_fault (env_ok\<lparr>session_fault := Some ''connection refused''\<rparr>) \<noteq> None \<and>
   fst (process_notification_event (env_ok\<lparr>session_fault := Some ''connection refused''\<rparr>)
          world_no_subject (Decoded event_with_email))
     = [basic_nack True] \<and>
   session_fault env_ok = None \<and> close_fault env_ok = None \<and>
   fst (process_event_try env_ok world_no_subject event_with_email) = Some ''subject'' \<and>
   fst (process_notification_event env_ok world_no_subject (Decoded event_with_email))
     = [basic_ack]"
proof -
  have f: "session_fault env_ok = None" "close_fault env_ok = None"
    by (simp_all add: env_ok_def)
  have l: "fst (process_event_try env_ok world_no_subject event_with_email) = Some ''subject''"
    by code_simp
  show ?thesis
    using adapter_acknowledgement
            [of env_ok world_no_subject "''Expecting value''" event_with_email]
          adapter_acknowledgement
            [of env_ok world_no_subject "''user_id''" event_with_email]
          adapter_acknowledgement
            [of "env_ok\<lparr>session_fault := Some ''connection refused''\<rparr>" world_no_subject
                "''x''" event_with_email]
    by (simp add: f l)
qed

section \<open>Template renderer: sequential replacement against simultaneous substitution\<close>

lemma placeholder_not_empty: "placeholder k \<noteq> []"
  by (simp add: placeholder_def)

lemma replace_skip:
  "open_free s \<Longrightarrow>
     py_replace (placeholder k) new (s @ t) = s @ py_replace (placeholder k) new t"
proof (induction s)
  case Nil
  show ?case by simp
next
  case (Cons c s)
  then have c: "c \<noteq> CHR ''{''" and s: "open_free s"
    by (auto simp: open_free_def)
  have "take (length (placeholder k)) (c # s @ t) \<noteq> placeholder k"
    using c by (auto simp: placeholder_def)
  then show ?case
    using Cons.IH [OF s] by (simp add: placeholder_not_empty)
qed

lemma replace_match:
  "py_replace (placeholder k) new (placeholder k @ t) = new @ py_replace (placeholder k) new t"
proof -
  have "placeholder k @ t = CHR ''{'' # (k @ CHR ''}'' # t)"
    by (simp add: placeholder_def)
  moreover have "take (length (placeholder k)) (CHR ''{'' # (k @ CHR ''}'' # t)) = placeholder k"
    by (simp add: placeholder_def)
  moreover have "drop (length (placeholder k)) (CHR ''{'' # (k @ CHR ''}'' # t)) = t"
    by (simp add: placeholder_def)
  ultimately show ?thesis
    by (simp add: placeholder_not_empty)
qed

lemma key_prefix:
  "brace_free k \<Longrightarrow> brace_free k' \<Longrightarrow>
     take (Suc (length k)) (k' @ CHR ''}'' # t) = k @ [CHR ''}''] \<Longrightarrow> k = k'"
proof (induction k arbitrary: k')
  case Nil
  then show ?case by (cases k') (auto simp: brace_free_def)
next
  case (Cons a k)
  show ?case
  proof (cases k')
    case Nil
    with Cons.prems show ?thesis by (auto simp: brace_free_def)
  next
    case (Cons b k1)
    with Cons.prems have "a = b" "brace_free k" "brace_free k1"
      "take (Suc (length k)) (k1 @ CHR ''}'' # t) = k @ [CHR ''}'']"
      by (auto simp: brace_free_def)
    with Cons.IH [of k1] Cons show ?thesis by simp
  qed
qed

lemma replace_no_match:
  "old \<noteq> [] \<Longrightarrow> take (length old) (c # cs) \<noteq> old \<Longrightarrow>
     py_replace old new (c # cs) = c # py_replace old new cs"
  by simp

lemma replace_other:
  assumes "brace_free k" and "brace_free k'" and "k' \<noteq> k"
  shows "py_replace (placeholder k) new (placeholder k' @ t) =
           placeholder k' @ py_replace (placeholder k) new t"
proof -
  let ?old = "placeholder k"
  let ?rest = "(k' @ [CHR ''}'']) @ t"
  have shape: "placeholder k' @ t = CHR ''{'' # ?rest"
    by (simp add: placeholder_def)
  have nomatch: "take (length ?old) (CHR ''{'' # ?rest) \<noteq> ?old"
    using key_prefix [OF assms(1,2), of t] assms(3) by (auto simp: placeholder_def)
  have step: "py_replace ?old new (CHR ''{'' # ?rest) = CHR ''{'' # py_replace ?old new ?rest"
    by (rule replace_no_match [OF placeholder_not_empty nomatch])
  have "open_free (k' @ [CHR ''}''])"
    using assms(2) by (simp add: open_free_def brace_free_def)
  then have skip: "py_replace ?old new ?rest = (k' @ [CHR ''}'']) @ py_replace ?old new t"
    by (rule replace_skip)
  have "py_replace ?old new (placeholder k' @ t) =
          CHR ''{'' # (k' @ [CHR ''}'']) @ py_replace ?old new t"
    by (simp only: shape step skip)
  also have "\<dots> = placeholder k' @ py_replace ?old new t"
    by (simp add: placeholder_def)
  finally show ?thesis .
qed

lemma replace_template:
  assumes "brace_free k"
  shows "list_all plain_segment segs \<Longrightarrow>
     py_replace (placeholder k) new (template_text segs) =
       template_text (map (subst_segment k new) segs)"
proof (induction segs)
  case Nil
  show ?case by (simp add: template_text_def placeholder_not_empty)
next
  case (Cons seg segs)
  then have ih: "py_replace (placeholder k) new (template_text segs) =
                   template_text (map (subst_segment k new) segs)"
    by simp
  show ?case
  proof (cases seg)
    case (Lit s)
    with Cons.prems have "open_free s" by simp
    then show ?thesis
      using ih Lit replace_skip [of s k new "template_text segs"]
      by (simp add: template_text_def)
  next
    case (Hole k')
    with Cons.prems have bf: "brace_free k'" by simp
    show ?thesis
    proof (cases "k' = k")
      case True
      then show ?thesis
        using ih Hole replace_match [of k new "template_text segs"]
        by (simp add: template_text_def)
    next
      case False
      then show ?thesis
        using ih Hole replace_other [OF assms bf False, of new "template_text segs"]
        by (simp add: template_text_def)
    qed
  qed
qed

lemma subst_plain:
  "open_free v \<Longrightarrow> list_all plain_segment segs \<Longrightarrow>
     list_all plain_segment (map (subst_segment k v) segs)"
proof (induction segs)
  case Nil
  show ?case by simp
next
  case (Cons seg segs)
  then show ?case by (cases seg) auto
qed

lemma fill_subst:
  "fill d (subst_segment k (str_value v) seg) = fill ((k, v) # d) seg"
  by (cases seg) auto

lemma fill_empty: "fill [] seg = segment_text seg"
  by (cases seg) auto

lemma replace_placeholders_Cons:
  "replace_placeholders t ((k, v) # d) =
     replace_placeholders (py_replace (placeholder k) (str_value v) t) d"
  by (simp add: replace_placeholders_def)

lemma render_plain:
  "list_all plain_segment segs \<Longrightarrow> plain_data d \<Longrightarrow>
     replace_placeholders (template_text segs) d = render_spec segs d"
proof (induction d arbitrary: segs)
  case Nil
  show ?case
    by (simp add: replace_placeholders_def render_spec_def template_text_def fill_empty cong: map_cong)
next
  case (Cons kv d)
  obtain k v where kv: "kv = (k, v)" by (cases kv)
  from Cons.prems(2) kv have k: "brace_free k" and v: "open_free (str_value v)"
    and d: "plain_data d"
    by (simp_all add: plain_data_def)
  let ?segs = "map (subst_segment k (str_value v)) segs"
  have "replace_placeholders (template_text segs) (kv # d) =
          replace_placeholders (template_text ?segs) d"
    by (simp add: kv replace_placeholders_Cons replace_template [OF k Cons.prems(1)])
  also have "\<dots> = render_spec ?segs d"
    by (rule Cons.IH [OF subst_plain [OF v Cons.prems(1)] d])
  also have "\<dots> = render_spec segs (kv # d)"
    by (simp add: render_spec_def kv fill_subst comp_def)
  finally show ?case .
qed


text \<open>
  Claim C5 as stated fails: the replacements are made one key after the other, each on the
  result of the one before. With \<open>{a: "{b}", b: "x"}\<close> the template \<open>{a}\<close> renders to
  \<open>x\<close>, not to the string form \<open>{b}\<close> of the value of \<open>a\<close>; and in the template
  \<open>{ab{k}}\<close> the text put in for \<open>{k}\<close> completes the placeholder \<open>{abcd}\<close>, which
  is replaced in turn.
\<close>

theorem render_chained_counterexample:
  "template_text [Hole ''a''] = ''{a}'' \<and>
   replace_placeholders ''{a}'' chained_data = ''x'' \<and>
   render_spec [Hole ''a''] chained_data = ''{b}'' \<and>
   template_text [Lit ''{ab'', Hole ''k'', Lit ''}''] = ''{ab{k}}'' \<and>
   replace_placeholders ''{ab{k}}'' nested_data = ''X'' \<and>
   render_spec [Lit ''{ab'', Hole ''k'', Lit ''}''] nested_data = ''{abcd}''"
  by code_simp

text \<open>
  Claim C5, amended: for a template made of literal text without an opening brace and of
  placeholders whose keys contain no brace, and a data dictionary whose keys contain no brace
  and whose values' string forms contain no opening brace, rendering replaces every
  placeholder whose key is in the dictionary with the string form of its value and leaves
  every other placeholder as it is; the same holds for the subject, the title and the body
  of \<open>_render_template\<close>.
\<close>

theorem render_plain_template:
  assumes "list_all plain_segment segs" and "plain_data d"
  shows "replace_placeholders (template_text segs) d = render_spec segs d \<and>
         rendered_body (render_template (t\<lparr>body_template := template_text segs\<rparr>) d)
           = render_spec segs d \<and>
         (template_text segs \<noteq> [] \<longrightarrow>
            rendered_subject
              (render_template (t\<lparr>subject_template := Some (template_text segs)\<rparr>) d)
              = Some (render_spec segs d) \<and>
            rendered_title
              (render_template (t\<lparr>title_template := Some (template_text segs)\<rparr>) d)
              = Some (render_spec segs d))"
  using render_plain [OF assms] by (simp add: render_template_def)

lemma greeting_plain: "list_all plain_segment greeting_template" "plain_data greeting_data"
  by (simp_all add: greeting_template_def greeting_data_def plain_data_def open_free_def
      brace_free_def str_int_def str_nat.simps digit_char_def)

theorem render_plain_template_witness:
  "list_all plain_segment greeting_template \<and> plain_data greeting_data \<and>
   template_text greeting_template = ''Hello {name}, your order {order_id} is ready'' \<and>
   replace_placeholders ''Hello {name}, your order {order_id} is ready'' greeting_data
     = ''Hello John, your order {order_id} is ready'' \<and>
   render_spec greeting_template greeting_data = ''Hello John, your order {order_id} is ready''"
proof -
  have t: "template_text greeting_template = ''Hello {name}, your order {order_id} is ready''"
    by code_simp
  have r: "render_spec greeting_template greeting_data
             = ''Hello John, your order {order_id} is ready''"
    by code_simp
  show ?thesis
    using render_plain_template [OF greeting_plain, of email_template] t r greeting_plain
    by simp
qed

text \<open>
  Claim C6 as stated fails: with \<open>{b: "x", a: "{b}"}\<close> the template \<open>{a}\<close> renders to
  \<open>{b}\<close>, and rendering that output again gives \<open>x\<close>.
\<close>

theorem render_twice_counterexample:
  "replace_placeholders ''{a}'' late_data = ''{b}'' \<and>
   replace_placeholders (replace_placeholders ''{a}'' late_data) late_data = ''x''"
  by code_simp

lemma fill_as_text: "fill d seg = segment_text (resolve_segment d seg)"
  by (cases seg) (auto split: option.splits)

lemma render_spec_resolve: "render_spec segs d = template_text (map (resolve_segment d) segs)"
  by (simp add: render_spec_def template_text_def comp_def fill_as_text cong: map_cong)

lemma plain_data_value:
  "plain_data d \<Longrightarrow> map_of d k = Some v \<Longrightarrow> open_free (str_value v)"
  by (auto simp: plain_data_def list_all_iff dest!: map_of_SomeD)

lemma resolve_plain:
  "plain_data d \<Longrightarrow> list_all plain_segment segs \<Longrightarrow>
     list_all plain_segment (map (resolve_segment d) segs)"
proof (induction segs)
  case Nil
  show ?case by simp
next
  case (Cons seg segs)
  then show ?case
    by (cases seg) (auto split: option.splits dest: plain_data_value)
qed

lemma fill_resolve: "fill d (resolve_segment d seg) = fill d seg"
  by (cases seg) (auto split: option.splits)

lemma render_spec_resolved: "render_spec (map (resolve_segment d) segs) d = render_spec segs d"
  by (simp add: render_spec_def comp_def fill_resolve)

text \<open>
  Claim C6, amended: for a template made of literal text without an opening brace and of
  placeholders whose keys contain no brace, and a data dictionary whose keys contain no brace
  and whose values' string forms contain no opening brace, rendering the rendered output
  again with the same dictionary gives the same string.
\<close>

theorem render_twice_plain:
  assumes "list_all plain_segment segs" and "plain_data d"
  shows "replace_placeholders (replace_placeholders (template_text segs) d) d =
           replace_placeholders (template_text segs) d"
proof -
  let ?out = "map (resolve_segment d) segs"
  have once: "replace_placeholders (template_text segs) d = template_text ?out"
    by (simp add: render_plain [OF assms] render_spec_resolve)
  have "replace_placeholders (template_text ?out) d = render_spec ?out d"
    by (rule render_plain [OF resolve_plain [OF assms(2,1)] assms(2)])
  also have "\<dots> = render_spec segs d"
    by (rule render_spec_resolved)
  also have "\<dots> = template_text ?out"
    by (rule render_spec_resolve)
  finally show ?thesis
    by (simp add: once)
qed

theorem render_twice_plain_witness:
  "list_all plain_segment greeting_template \<and> plain_data greeting_data \<and>
   replace_placeholders
     (replace_placeholders (template_text greeting_template) greeting_data) greeting_data
     = ''Hello John, your order {order_id} is ready''"
proof -
  have r: "replace_placeholders (template_text greeting_template) greeting_data
             = ''Hello John, your order {order_id} is ready''"
    by code_simp
  show ?thesis
    using render_twice_plain [OF greeting_plain] r greeting_plain by simp
qed

end
